theory Spec2Isabelle
  imports Complex_Main
begin

section \<open>The SegmentTimeline representation index of the DASH parser\<close>

text \<open>
  A shallow embedding of \<^verbatim>\<open>src/parsers/manifest/dash/indexes/timeline.ts\<close>.

  A JavaScript \<^verbatim>\<open>number\<close> is modelled as an exact real: rounding and the infinities of
  IEEE doubles are left out. The two places where the code can meet a value that is not
  an ordinary number are written out: an attribute of a parsed \<^verbatim>\<open>S\<close> node may be
  \<^verbatim>\<open>NaN\<close> (type \<open>parsed\<close>), and the end of a run may be unbounded or, after a division
  by a zero duration, \<^verbatim>\<open>NaN\<close> (type \<open>position\<close>). An optional property
  (\<^verbatim>\<open>start?\<close>, \<^verbatim>\<open>number | undefined\<close>) is an \<open>option\<close>.
  Array lengths are natural numbers below \<open>2 ^ 31\<close>, so that \<^verbatim>\<open>(low + high) >>> 1\<close>
  is a division by two.
\<close>

subsection \<open>Data\<close>

datatype parsed = NaN | Num real

fun isNaN :: "parsed \<Rightarrow> bool" where
  "isNaN NaN = True"
| "isNaN (Num _) = False"

text \<open>The parsed \<^verbatim>\<open>S\<close> node: \<^verbatim>\<open>{ start?, repeatCount?, duration? }\<close>.\<close>

record ParsedS =
  rawStart :: "parsed option"
  rawRepeatCount :: "parsed option"
  rawDuration :: "parsed option"

text \<open>\<^verbatim>\<open>IIndexSegment\<close>: an entry of the timeline. A duration of \<open>-1\<close> is open-ended.\<close>

record IIndexSegment =
  start :: real
  duration :: real
  repeatCount :: real

record Initialization =
  initMediaURL :: string
  initRange :: "(real \<times> real) option"

record ITimelineIndex =
  indexRange :: "(real \<times> real) option"
  indexTimeOffset :: real
  initialization :: "Initialization option"
  mediaURL :: string
  startNumber :: "real option"
  timeline :: "IIndexSegment list"
  timescale :: real



text \<open>
  \<^verbatim>\<open>ManifestBoundsCalculator\<close> is an external collaborator; the index only calls its
  \<^verbatim>\<open>getMinimumBound()\<close>, whose answer (seconds, or unknown) is the one field here.
\<close>

record ManifestBoundsCalculator =
  getMinimumBound :: "real option"


text \<open>The fields of the class \<^verbatim>\<open>TimelineRepresentationIndex\<close> (the index facade).\<close>

record TimelineRepresentationIndex =
  index :: ITimelineIndex
  lastUpdate :: real
  scaledPeriodStart :: real
  scaledPeriodEnd :: "real option"
  isDynamic :: bool
  manifestBoundsCalculator :: ManifestBoundsCalculator

text \<open>
  Reading a property of \<^verbatim>\<open>undefined\<close> throws a \<^verbatim>\<open>TypeError\<close>; an array read out
  of range gives \<^verbatim>\<open>undefined\<close>.
\<close>

datatype error = TypeError

definition elemAt :: "'a list \<Rightarrow> nat \<Rightarrow> 'a option" where
  "elemAt xs i = (if i < length xs then Some (xs ! i) else None)"

subsection \<open>The timeline normalizer\<close>

text \<open>
  \<^verbatim>\<open>fromParsedSToIndexSegment\<close>, lines 129 to 163, in three steps: the value of the local
  \<^verbatim>\<open>start\<close> after lines 135 to 145, the value of the local \<^verbatim>\<open>duration\<close> after
  lines 146 to 151, and the acceptance test of lines 152 to 162. The previous item is
  an \<^verbatim>\<open>IIndexSegment\<close>, whose duration is a number: the test
  \<^verbatim>\<open>previousItem.duration != null\<close> of line 141 holds for every previous item.
\<close>

definition resolveStart ::
  "ParsedS \<Rightarrow> IIndexSegment option \<Rightarrow> real \<Rightarrow> parsed option" where
  "resolveStart item previousItem timelineStart =
     (case rawStart item of
        Some s \<Rightarrow> Some s
      | None \<Rightarrow>
          (case previousItem of
             None \<Rightarrow> Some (Num timelineStart)
           | Some p \<Rightarrow> Some (Num (start p + duration p * (repeatCount p + 1)))))"

definition resolveDuration ::
  "ParsedS \<Rightarrow> ParsedS option \<Rightarrow> parsed option \<Rightarrow> parsed option" where
  "resolveDuration item nextItem startValue =
     (case rawDuration item of
        Some (Num d) \<Rightarrow> Some (Num d)
      | _ \<Rightarrow>
          (case (nextItem, startValue) of
             (Some n, Some (Num s)) \<Rightarrow>
               (case rawStart n of
                  Some (Num ns) \<Rightarrow> Some (Num (ns - s))
                | _ \<Rightarrow> rawDuration item)
           | _ \<Rightarrow> rawDuration item))"

definition fromParsedSToIndexSegment ::
  "ParsedS \<Rightarrow> IIndexSegment option \<Rightarrow> ParsedS option \<Rightarrow> real \<Rightarrow> IIndexSegment option" where
  "fromParsedSToIndexSegment item previousItem nextItem timelineStart =
     (let startValue = resolveStart item previousItem timelineStart;
          durationValue = resolveDuration item nextItem startValue
      in case (startValue, durationValue) of
           (Some (Num s), Some (Num d)) \<Rightarrow>
             (case rawRepeatCount item of
                None \<Rightarrow> Some \<lparr>start = s, duration = d, repeatCount = 0\<rparr>
              | Some (Num r) \<Rightarrow> Some \<lparr>start = s, duration = d, repeatCount = r\<rparr>
              | Some NaN \<Rightarrow> None)
         | _ \<Rightarrow> None)"

text \<open>
  The loop of the constructor, lines 241 to 256. The source names the last resolved
  entry \<^verbatim>\<open>nextItem\<close> and the following raw entry \<^verbatim>\<open>prevItem\<close>, and passes them in
  the order previous, next.
\<close>

fun normalizeTimeline ::
  "real \<Rightarrow> ParsedS list \<Rightarrow> IIndexSegment list \<Rightarrow> IIndexSegment list" where
  "normalizeTimeline scaledStart [] acc = acc"
| "normalizeTimeline scaledStart (item # rest) acc =
     (let lastResolved = (if acc = [] then None else Some (last acc));
          followingRaw = (case rest of [] \<Rightarrow> None | n # _ \<Rightarrow> Some n)
      in case fromParsedSToIndexSegment item lastResolved followingRaw scaledStart of
           None \<Rightarrow> normalizeTimeline scaledStart rest acc
         | Some timelineElement \<Rightarrow>
             normalizeTimeline scaledStart rest (acc @ [timelineElement]))"

subsection \<open>Helpers of \<^verbatim>\<open>utils/index_helpers\<close> and \<^verbatim>\<open>utils/clear_timeline_from_position\<close>\<close>

text \<open>
  Modelled from the spec: \<^verbatim>\<open>toIndexTime\<close> and \<^verbatim>\<open>fromIndexTime\<close> are imported from
  \<^verbatim>\<open>utils/index_helpers\<close>, which is not among the sources. The comment of lines 45 to
  55 gives the conversion, \<^verbatim>\<open>T * timescale + indexTimeOffset\<close>; the spec asks that the
  two be inverse to each other. The timescale is a positive number.
\<close>

definition toIndexTime :: "real \<Rightarrow> ITimelineIndex \<Rightarrow> real" where
  "toIndexTime time indexInfo = time * timescale indexInfo + indexTimeOffset indexInfo"

definition fromIndexTime :: "real \<Rightarrow> ITimelineIndex \<Rightarrow> real" where
  "fromIndexTime time indexInfo = (time - indexTimeOffset indexInfo) / timescale indexInfo"

text \<open>
  The end of a run is a number, or unbounded, or (only out of
  \<^verbatim>\<open>_getTheoriticalLastPosition\<close>, dividing by a zero duration) not a number. The
  comparisons and sums of the code are lifted to these values as JavaScript has them:
  every comparison with \<^verbatim>\<open>NaN\<close> is false, and the unbounded end is above every number.
\<close>

datatype position = Finite real | Unbounded | NotANumber

fun lessPos :: "position \<Rightarrow> position \<Rightarrow> bool" where
  "lessPos (Finite a) (Finite b) = (a < b)"
| "lessPos (Finite a) Unbounded = True"
| "lessPos _ _ = False"

fun geqPos :: "position \<Rightarrow> position \<Rightarrow> bool" where
  "geqPos (Finite a) (Finite b) = (a \<ge> b)"
| "geqPos Unbounded (Finite b) = True"
| "geqPos Unbounded Unbounded = True"
| "geqPos _ _ = False"

fun addPos :: "position \<Rightarrow> position \<Rightarrow> position" where
  "addPos (Finite a) (Finite b) = Finite (a + b)"
| "addPos NotANumber _ = NotANumber"
| "addPos _ NotANumber = NotANumber"
| "addPos _ _ = Unbounded"

fun subPos :: "position \<Rightarrow> real \<Rightarrow> position" where
  "subPos (Finite a) b = Finite (a - b)"
| "subPos p b = p"

text \<open>
  Modelled from the spec: \<^verbatim>\<open>getIndexSegmentEnd\<close> of \<^verbatim>\<open>utils/index_helpers\<close> is not
  among the sources. Entry end computation: for an entry with a concrete duration, its
  end is start + duration * (repeatCount + 1). For an entry with the open-ended sentinel
  duration, its end is the next entry's start if a next entry exists, else the period's
  end bound if known, else unbounded.
\<close>

definition getIndexSegmentEnd ::
  "IIndexSegment \<Rightarrow> IIndexSegment option \<Rightarrow> real option \<Rightarrow> position" where
  "getIndexSegmentEnd segment nextSegment maximumTime =
     (if duration segment = - 1 then
        (case nextSegment of
           Some n \<Rightarrow> Finite (start n)
         | None \<Rightarrow> (case maximumTime of Some m \<Rightarrow> Finite m | None \<Rightarrow> Unbounded))
      else Finite (start segment + duration segment * (repeatCount segment + 1)))"

text \<open>
  Modelled from the spec: \<^verbatim>\<open>clearTimelineFromPosition\<close> is not among the sources. It
  prunes the timeline entries that have fully expired before the cutoff, preserving
  sort order and preserving any entry that still straddles the cutoff. An entry has
  fully expired when its end is at or before the cutoff; an open-ended last entry
  never has.
\<close>

fun clearTimelineFromPosition :: "IIndexSegment list \<Rightarrow> real \<Rightarrow> IIndexSegment list" where
  "clearTimelineFromPosition [] firstAvailablePosition = []"
| "clearTimelineFromPosition (firstElt # rest) firstAvailablePosition =
     (if geqPos (Finite firstAvailablePosition)
           (getIndexSegmentEnd firstElt (elemAt rest 0) None)
      then clearTimelineFromPosition rest firstAvailablePosition
      else firstElt # rest)"

subsection \<open>The floor search\<close>

text \<open>\<^verbatim>\<open>getSegmentIndex\<close>, lines 171 to 188; \<open>getSegmentIndexLoop\<close> is its while loop.\<close>

function getSegmentIndexLoop ::
  "IIndexSegment list \<Rightarrow> real \<Rightarrow> nat \<Rightarrow> nat \<Rightarrow> error + nat" where
  "getSegmentIndexLoop entries startTime low high =
     (if low < high then
        (let mid = (low + high) div 2
         in case elemAt entries mid of
              None \<Rightarrow> Inl TypeError
            | Some elt \<Rightarrow>
                if start elt < startTime
                then getSegmentIndexLoop entries startTime (mid + 1) high
                else getSegmentIndexLoop entries startTime low mid)
      else Inr low)"
  by pat_completeness auto
termination
  by (relation "measure (\<lambda>(entries, startTime, low, high). high - low)") auto

declare getSegmentIndexLoop.simps [simp del]

definition getSegmentIndex :: "ITimelineIndex \<Rightarrow> real \<Rightarrow> error + nat" where
  "getSegmentIndex indexInfo startTime =
     (case getSegmentIndexLoop (timeline indexInfo) startTime 0 (length (timeline indexInfo)) of
        Inl e \<Rightarrow> Inl e
      | Inr low \<Rightarrow> Inr (if low > 0 then low - 1 else low))"

subsection \<open>The index facade\<close>

text \<open>
  Modelled from the spec: the \<^verbatim>\<open>ISegment\<close> of the manifest module is not among the
  sources. Segment (output unit): isInit, time, duration, number, url, range,
  indexRange, timescale. The facade reads \<^verbatim>\<open>isInit\<close> only.
\<close>

record ISegment =
  isInit :: bool
  segTime :: real
  segDuration :: real
  segNumber :: "real option"
  segUrl :: string
  segRange :: "(real \<times> real) option"
  segIndexRange :: "(real \<times> real) option"
  segTimescale :: real

text \<open>
  Modelled from the spec: the error classes of the errors module are not among the
  sources. An error type carrying an HTTP-status predicate (\<^verbatim>\<open>isHttpError(code)\<close>)
  and a network-error discriminator.
\<close>

datatype ICustomError = NetworkError "nat option" | OtherError

fun instanceofNetworkError :: "ICustomError \<Rightarrow> bool" where
  "instanceofNetworkError (NetworkError _) = True"
| "instanceofNetworkError OtherError = False"

fun isHttpError :: "ICustomError \<Rightarrow> nat \<Rightarrow> bool" where
  "isHttpError (NetworkError status) code = (status = Some code)"
| "isHttpError OtherError code = False"


text \<open>
  \<^verbatim>\<open>_refreshTimeline\<close>, lines 502 to 509: the eviction pass. The code prunes the array
  in place; the model returns the facade with the pruned timeline.
\<close>

definition refreshTimeline :: "TimelineRepresentationIndex \<Rightarrow> TimelineRepresentationIndex" where
  "refreshTimeline this =
     (case getMinimumBound (manifestBoundsCalculator this) of
        None \<Rightarrow> this
      | Some firstPosition \<Rightarrow>
          (let scaledFirstPosition = toIndexTime firstPosition (index this)
           in this\<lparr>index := (index this)\<lparr>timeline :=
                clearTimelineFromPosition (timeline (index this)) scaledFirstPosition\<rparr>\<rparr>))"

text \<open>
  Every method returns its result together with the facade it leaves behind.
  \<^verbatim>\<open>getInitSegment\<close>, lines 292 to 294, and \<^verbatim>\<open>getSegments\<close>, lines 302 to 308; the
  helpers \<^verbatim>\<open>./get_init_segment\<close> and \<^verbatim>\<open>./get_segments_from_timeline\<close> are not among
  the sources and are parameters.
\<close>

definition getInitSegment ::
  "(ITimelineIndex \<Rightarrow> ISegment) \<Rightarrow> TimelineRepresentationIndex \<Rightarrow>
   ISegment \<times> TimelineRepresentationIndex" where
  "getInitSegment getInitSegmentHelper this = (getInitSegmentHelper (index this), this)"

definition getSegments ::
  "(ITimelineIndex \<Rightarrow> real \<Rightarrow> real \<Rightarrow> real option \<Rightarrow> ISegment list) \<Rightarrow>
   TimelineRepresentationIndex \<Rightarrow> real \<Rightarrow> real \<Rightarrow>
   ISegment list \<times> TimelineRepresentationIndex" where
  "getSegments getSegmentsFromTimeline this from durationWanted =
     (let this' = refreshTimeline this
      in (getSegmentsFromTimeline (index this') from durationWanted (scaledPeriodEnd this'),
          this'))"

text \<open>\<^verbatim>\<open>_getTheoriticalLastPosition\<close>, lines 516 to 537; \<open>None\<close> is \<^verbatim>\<open>undefined\<close>.\<close>

definition getTheoriticalLastPosition ::
  "real \<Rightarrow> TimelineRepresentationIndex \<Rightarrow> position option" where
  "getTheoriticalLastPosition now this =
     (let indexInfo = index this
      in if length (timeline indexInfo) \<le> 0 then None
         else
           (let lastTimelineElement = last (timeline indexInfo);
                lastPosition =
                  getIndexSegmentEnd lastTimelineElement None (scaledPeriodEnd this)
            in if \<not> isDynamic this then Some lastPosition
               else
                 (let lastSegmentDuration = duration lastTimelineElement;
                      timeDiffInSeconds = (now - lastUpdate this) / 1000;
                      timeDiffTS = timeDiffInSeconds * timescale indexInfo
                  in if timeDiffTS < lastSegmentDuration then Some lastPosition
                     else if lastSegmentDuration = 0 then Some NotANumber
                     else
                       (let numberOfNewSegments =
                              real_of_int \<lfloor>timeDiffTS / lastSegmentDuration\<rfloor>
                        in Some (addPos (Finite (numberOfNewSegments * lastSegmentDuration))
                                   lastPosition)))))"

text \<open>\<^verbatim>\<open>shouldRefresh\<close>, lines 316 to 337.\<close>

definition shouldRefresh ::
  "real \<Rightarrow> TimelineRepresentationIndex \<Rightarrow> real \<Rightarrow> real \<Rightarrow>
   bool \<times> TimelineRepresentationIndex" where
  "shouldRefresh now this up to =
     (let this' = refreshTimeline this
      in (if \<not> isDynamic this' then False
          else if length (timeline (index this')) = 0 then True
          else
            (let lastTimelineElt = last (timeline (index this'));
                 lastTime = getIndexSegmentEnd lastTimelineElt None (scaledPeriodEnd this')
             in if lessPos (Finite (to * timescale (index this'))) lastTime then False
                else
                  (case getTheoriticalLastPosition now this' of
                     None \<Rightarrow> True
                   | Some lastTheoriticalPosition \<Rightarrow>
                       lessPos lastTime lastTheoriticalPosition)),
          this'))"

text \<open>\<^verbatim>\<open>getFirstPosition\<close>, lines 345 to 351, and \<^verbatim>\<open>getLastPosition\<close>, lines 359 to 370.\<close>

definition getFirstPosition ::
  "TimelineRepresentationIndex \<Rightarrow> real option \<times> TimelineRepresentationIndex" where
  "getFirstPosition this =
     (let this' = refreshTimeline this;
          indexInfo = index this'
      in (if length (timeline indexInfo) = 0 then None
          else Some (fromIndexTime (start (hd (timeline indexInfo))) indexInfo),
          this'))"

definition getLastPosition ::
  "TimelineRepresentationIndex \<Rightarrow> position option \<times> TimelineRepresentationIndex" where
  "getLastPosition this =
     (let this' = refreshTimeline this;
          entries = timeline (index this')
      in (if length entries = 0 then None
          else
            (case getIndexSegmentEnd (last entries) None (scaledPeriodEnd this') of
               Finite lastTime \<Rightarrow> Some (Finite (fromIndexTime lastTime (index this')))
             | p \<Rightarrow> Some p),
          this'))"

text \<open>
  \<^verbatim>\<open>isSegmentStillAvailable\<close>, lines 380 to 387; the helper
  \<^verbatim>\<open>utils/is_segment_still_available\<close> is not among the sources and is a parameter.
\<close>

definition isSegmentStillAvailable ::
  "(ISegment \<Rightarrow> IIndexSegment list \<Rightarrow> real \<Rightarrow> real \<Rightarrow> bool option) \<Rightarrow>
   TimelineRepresentationIndex \<Rightarrow> ISegment \<Rightarrow>
   bool option \<times> TimelineRepresentationIndex" where
  "isSegmentStillAvailable isSegmentStillAvailableHelper this segment =
     (if isInit segment then (Some True, this)
      else
        (let this' = refreshTimeline this
         in (isSegmentStillAvailableHelper segment (timeline (index this'))
               (timescale (index this')) (indexTimeOffset (index this')),
             this')))"

text \<open>
  \<^verbatim>\<open>checkDiscontinuity\<close>, lines 398 to 439. \<open>Inl TypeError\<close> is the exception thrown
  by reading \<^verbatim>\<open>.start\<close> or \<^verbatim>\<open>.duration\<close> of an entry out of range.
\<close>

definition checkDiscontinuity ::
  "TimelineRepresentationIndex \<Rightarrow> real \<Rightarrow> (error + real) \<times> TimelineRepresentationIndex" where
  "checkDiscontinuity this time =
     (let this' = refreshTimeline this;
          entries = timeline (index this');
          scaledTime = toIndexTime time (index this')
      in (if scaledTime \<le> 0 then Inr (- 1)
          else
            (case getSegmentIndex (index this') scaledTime of
               Inl e \<Rightarrow> Inl e
             | Inr segmentIndex \<Rightarrow>
                 if int segmentIndex < 0 \<or> int segmentIndex \<ge> int (length entries) - 1
                 then Inr (- 1)
                 else
                   (case elemAt entries segmentIndex of
                      None \<Rightarrow> Inl TypeError
                    | Some timelineItem \<Rightarrow>
                        if duration timelineItem = - 1 then Inr (- 1)
                        else
                          (case elemAt entries (segmentIndex + 1) of
                             None \<Rightarrow> Inr (- 1)
                           | Some nextTimelineItem \<Rightarrow>
                               (let rangeUp = start timelineItem;
                                    rangeTo =
                                      getIndexSegmentEnd timelineItem (Some nextTimelineItem)
                                        (scaledPeriodEnd this')
                                in if lessPos rangeTo (Finite (start nextTimelineItem)) \<and>
                                      scaledTime \<ge> rangeUp \<and>
                                      lessPos (subPos rangeTo scaledTime)
                                        (Finite (timescale (index this')))
                                   then Inr (fromIndexTime (start nextTimelineItem)
                                               (index this'))
                                   else Inr (- 1))))),
          this'))"

text \<open>\<^verbatim>\<open>canBeOutOfSyncError\<close>, lines 445 to 451.\<close>

definition canBeOutOfSyncError ::
  "TimelineRepresentationIndex \<Rightarrow> ICustomError \<Rightarrow> bool \<times> TimelineRepresentationIndex" where
  "canBeOutOfSyncError this err =
     (if \<not> isDynamic this then False
      else instanceofNetworkError err \<and> isHttpError err 404,
      this)"

text \<open>\<^verbatim>\<open>_update\<close>, lines 456 to 463, and \<^verbatim>\<open>_addSegments\<close>, lines 471 to 475.\<close>

definition update ::
  "TimelineRepresentationIndex \<Rightarrow> TimelineRepresentationIndex \<Rightarrow> TimelineRepresentationIndex" where
  "update this newIndex =
     this\<lparr>index := index newIndex,
          isDynamic := isDynamic newIndex,
          scaledPeriodStart := scaledPeriodStart newIndex,
          scaledPeriodEnd := scaledPeriodEnd newIndex,
          lastUpdate := lastUpdate newIndex,
          manifestBoundsCalculator := manifestBoundsCalculator newIndex\<rparr>"

definition addSegments :: "TimelineRepresentationIndex \<Rightarrow> TimelineRepresentationIndex" where
  "addSegments this = this"

text \<open>\<^verbatim>\<open>isFinished\<close>, lines 480 to 496.\<close>

definition isFinished ::
  "TimelineRepresentationIndex \<Rightarrow> bool \<times> TimelineRepresentationIndex" where
  "isFinished this =
     (if \<not> isDynamic this then True
      else
        (case scaledPeriodEnd this of
           None \<Rightarrow> False
         | Some periodEnd \<Rightarrow>
             if length (timeline (index this)) = 0 then False
             else
               (let lastTimelineElement = last (timeline (index this));
                    lastTime = getIndexSegmentEnd lastTimelineElement None (Some periodEnd)
                in geqPos (addPos lastTime (Finite (1 / 60))) (Finite periodEnd))),
      this)"

subsection \<open>Ordered timelines\<close>







subsection \<open>Example values\<close>

text \<open>
  An index and a facade with no offset, constructor arguments, and stand-ins for the
  helpers that are parameters, used to run the code on concrete input.
\<close>

definition exampleIndex :: "IIndexSegment list \<Rightarrow> real \<Rightarrow> ITimelineIndex" where
  "exampleIndex es ts =
     \<lparr>indexRange = None, indexTimeOffset = 0, initialization = None, mediaURL = [],
      startNumber = None, timeline = es, timescale = ts\<rparr>"

definition exampleFacade ::
  "IIndexSegment list \<Rightarrow> real \<Rightarrow> real option \<Rightarrow> bool \<Rightarrow> real option \<Rightarrow>
   TimelineRepresentationIndex" where
  "exampleFacade es ts periodEnd dyn minimumBound =
     \<lparr>index = exampleIndex es ts, lastUpdate = 0, scaledPeriodStart = 0,
      scaledPeriodEnd = periodEnd, isDynamic = dyn,
      manifestBoundsCalculator = \<lparr>getMinimumBound = minimumBound\<rparr>\<rparr>"




definition exampleInitSegment :: "ITimelineIndex \<Rightarrow> ISegment" where
  "exampleInitSegment indexInfo =
     \<lparr>isInit = True, segTime = 0, segDuration = 0, segNumber = None, segUrl = mediaURL indexInfo,
      segRange = None, segIndexRange = indexRange indexInfo, segTimescale = timescale indexInfo\<rparr>"

definition exampleMediaSegment :: ISegment where
  "exampleMediaSegment =
     \<lparr>isInit = False, segTime = 0, segDuration = 10, segNumber = None, segUrl = [],
      segRange = None, segIndexRange = None, segTimescale = 1\<rparr>"

section \<open>Properties\<close>

subsection \<open>The eviction pass\<close>

lemma length_clearTimelineFromPosition:
  "length (clearTimelineFromPosition es p) \<le> length es"
  by (induction es) auto

lemma clearTimelineFromPosition_idem:
  "clearTimelineFromPosition (clearTimelineFromPosition es p) p = clearTimelineFromPosition es p"
  by (induction es) auto

lemma refreshTimeline_idem: "refreshTimeline (refreshTimeline this) = refreshTimeline this"
  by (simp add: refreshTimeline_def toIndexTime_def clearTimelineFromPosition_idem
      split: option.splits)

lemma refreshTimeline_fields:
  "isDynamic (refreshTimeline this) = isDynamic this"
  "scaledPeriodEnd (refreshTimeline this) = scaledPeriodEnd this"
  "lastUpdate (refreshTimeline this) = lastUpdate this"
  "timescale (index (refreshTimeline this)) = timescale (index this)"
  "indexTimeOffset (index (refreshTimeline this)) = indexTimeOffset (index this)"
  by (simp_all add: refreshTimeline_def split: option.splits)

lemma length_refreshTimeline:
  "length (timeline (index (refreshTimeline this))) \<le> length (timeline (index this))"
  by (simp add: refreshTimeline_def length_clearTimelineFromPosition split: option.splits)

subsection \<open>Out-of-sync errors\<close>

text \<open>
  C9: \<^verbatim>\<open>canBeOutOfSyncError(error)\<close> is false for every error when the index is static;
  when the index is dynamic it is true if and only if the error is a network error
  carrying the HTTP status 404.
\<close>

theorem C9_canBeOutOfSyncError:
  "fst (canBeOutOfSyncError this err) = (isDynamic this \<and> err = NetworkError (Some 404))"
  by (cases err) (auto simp: canBeOutOfSyncError_def)

subsection \<open>Timelines of fewer than two entries\<close>

lemma getSegmentIndex_short:
  assumes "length (timeline indexInfo) < 2"
  shows "getSegmentIndex indexInfo target = Inr 0"
proof (cases "timeline indexInfo")
  case Nil
  then show ?thesis
    by (simp add: getSegmentIndex_def getSegmentIndexLoop.simps)
next
  case (Cons e es)
  with assms have "es = []" by simp
  with Cons show ?thesis
    by (simp add: getSegmentIndex_def getSegmentIndexLoop.simps elemAt_def)
qed

text \<open>
  C10: on a facade whose timeline holds fewer than two entries, \<^verbatim>\<open>checkDiscontinuity\<close>
  returns \<open>-1\<close> for every query time and throws nothing: the floor search returns
  \<open>0\<close> (on the empty timeline too), and the guard
  \<^verbatim>\<open>segmentIndex >= timeline.length - 1\<close> holds of it, so that no entry is read.
\<close>

theorem C10_checkDiscontinuity_short_timeline:
  assumes "length (timeline (index this)) < 2"
  shows "fst (checkDiscontinuity this time) = Inr (- 1) \<and>
         getSegmentIndex (index (refreshTimeline this)) target = Inr 0 \<and>
         int 0 \<ge> int (length (timeline (index (refreshTimeline this)))) - 1"
proof -
  have short: "length (timeline (index (refreshTimeline this))) < 2"
    using assms length_refreshTimeline [of this] by linarith
  have search: "getSegmentIndex (index (refreshTimeline this)) t = Inr 0" for t
    using short by (rule getSegmentIndex_short)
  have "fst (checkDiscontinuity this time) = Inr (- 1)"
    using short by (simp add: checkDiscontinuity_def Let_def search)
  with short search show ?thesis by simp
qed

theorem C10_checkDiscontinuity_short_timeline_witness:
  "length (timeline (index
     (exampleFacade [\<lparr>start = 0, duration = 10, repeatCount = 0\<rparr>] 1 None True None))) < 2 \<and>
   fst (checkDiscontinuity
     (exampleFacade [\<lparr>start = 0, duration = 10, repeatCount = 0\<rparr>] 1 None True None) 5)
     = Inr (- 1) \<and>
   getSegmentIndex (exampleIndex [] 1) 5 = Inr 0"
  using C10_checkDiscontinuity_short_timeline
    [of "exampleFacade [\<lparr>start = 0, duration = 10, repeatCount = 0\<rparr>] 1 None True None" 5 0]
    C10_checkDiscontinuity_short_timeline [of "exampleFacade [] 1 None True None" 5 5]
  by (simp add: exampleFacade_def exampleIndex_def refreshTimeline_def)

subsection \<open>The start of an entry with no declared start\<close>

text \<open>
  For a raw entry with no declared start, the start is the period's scaled start when
  there is no previous resolved entry, and previous.start + previous.duration *
  (previous.repeatCount + 1) after a previous resolved entry of a duration other than
  \<open>-1\<close>.
\<close>

lemma resolveStart_without_start:
  assumes "rawStart item = None"
  shows "resolveStart item None timelineStart = Some (Num timelineStart)"
    and "duration p \<noteq> - 1 \<Longrightarrow>
         resolveStart item (Some p) timelineStart =
           Some (Num (start p + duration p * (repeatCount p + 1)))"
  using assms by (simp_all add: resolveStart_def)

text \<open>
  C2: after a previous resolved entry of the open-ended duration \<open>-1\<close>, the start of an
  entry with no declared start is to remain unresolved. The code computes it from the
  sentinel: after the entry starting at 10 with duration \<open>-1\<close> and no repetition, the
  start is 10 + (-1) * (0 + 1) = 9, and the normalizer stores the entry, before the
  start of its predecessor.
\<close>

theorem C2_start_after_open_ended_entry:
  "resolveStart \<lparr>rawStart = None, rawRepeatCount = None, rawDuration = Some (Num 5)\<rparr>
     (Some \<lparr>start = 10, duration = - 1, repeatCount = 0\<rparr>) 0 = Some (Num 9) \<and>
   normalizeTimeline 0
     [\<lparr>rawStart = Some (Num 10), rawRepeatCount = None, rawDuration = Some (Num (- 1))\<rparr>,
      \<lparr>rawStart = None, rawRepeatCount = None, rawDuration = Some (Num 5)\<rparr>] []
     = [\<lparr>start = 10, duration = - 1, repeatCount = 0\<rparr>,
        \<lparr>start = 9, duration = 5, repeatCount = 0\<rparr>]"
  by (simp add: resolveStart_def resolveDuration_def fromParsedSToIndexSegment_def)

subsection \<open>Order of the normalized timeline\<close>







subsection \<open>The floor search\<close>

text \<open>
  The search never reads out of range, and on a timeline sorted by start it returns
  the last entry that starts strictly before the target, or \<open>0\<close> when there is none.
\<close>

lemma getSegmentIndexLoop_bounds:
  assumes "high \<le> length entries" and "low \<le> high"
  shows "\<exists>r. getSegmentIndexLoop entries target low high = Inr r \<and> low \<le> r \<and> r \<le> high"
  using assms
proof (induction entries target low high rule: getSegmentIndexLoop.induct)
  case (1 entries target low high)
  show ?case
  proof (cases "low < high")
    case False
    then have "getSegmentIndexLoop entries target low high = Inr low"
      by (subst getSegmentIndexLoop.simps) simp
    with False "1.prems" show ?thesis by auto
  next
    case True
    define mid where "mid = (low + high) div 2"
    from True have m: "low \<le> mid" "mid < high" by (simp_all add: mid_def)
    with "1.prems" have at: "elemAt entries mid = Some (entries ! mid)"
      by (simp add: elemAt_def)
    show ?thesis
    proof (cases "start (entries ! mid) < target")
      case lt: True
      from "1.IH"(1) [OF True mid_def at lt] "1.prems" m
      obtain r where "getSegmentIndexLoop entries target (mid + 1) high = Inr r"
        "mid + 1 \<le> r" "r \<le> high" by auto
      with True at lt m show ?thesis
        by (subst getSegmentIndexLoop.simps) (simp add: mid_def [symmetric])
    next
      case ge: False
      from "1.IH"(2) [OF True mid_def at ge] "1.prems" m
      obtain r where "getSegmentIndexLoop entries target low mid = Inr r"
        "low \<le> r" "r \<le> mid" by auto
      with True at ge m show ?thesis
        by (subst getSegmentIndexLoop.simps) (simp add: mid_def [symmetric])
    qed
  qed
qed

lemma getSegmentIndex_total:
  "\<exists>i. getSegmentIndex indexInfo target = Inr i \<and> i \<le> length (timeline indexInfo) - 1"
proof -
  from getSegmentIndexLoop_bounds [of "length (timeline indexInfo)" "timeline indexInfo" 0 target]
  obtain r where "getSegmentIndexLoop (timeline indexInfo) target 0 (length (timeline indexInfo)) = Inr r"
    "r \<le> length (timeline indexInfo)" by auto
  then show ?thesis by (auto simp: getSegmentIndex_def)
qed

lemma getSegmentIndexLoop_partition:
  assumes "sorted_wrt (\<lambda>a b. start a \<le> start b) entries"
    and "high \<le> length entries" and "low \<le> high"
    and "\<forall>k<low. start (entries ! k) < target"
    and "\<forall>k. high \<le> k \<and> k < length entries \<longrightarrow> target \<le> start (entries ! k)"
  shows "\<exists>r. getSegmentIndexLoop entries target low high = Inr r \<and> r \<le> length entries \<and>
             (\<forall>k<r. start (entries ! k) < target) \<and>
             (\<forall>k. r \<le> k \<and> k < length entries \<longrightarrow> target \<le> start (entries ! k))"
  using assms
proof (induction entries target low high rule: getSegmentIndexLoop.induct)
  case (1 entries target low high)
  show ?case
  proof (cases "low < high")
    case False
    then have "getSegmentIndexLoop entries target low high = Inr low"
      by (subst getSegmentIndexLoop.simps) simp
    with False "1.prems" show ?thesis by auto
  next
    case True
    define mid where "mid = (low + high) div 2"
    from True have m: "low \<le> mid" "mid < high" by (simp_all add: mid_def)
    with "1.prems" have at: "elemAt entries mid = Some (entries ! mid)"
      by (simp add: elemAt_def)
    have mono: "start (entries ! j) \<le> start (entries ! k)" if "j \<le> k" "k < length entries" for j k
    proof (cases "j = k")
      case True then show ?thesis by simp
    next
      case False
      with that have "j < k" by simp
      with "1.prems"(1) that(2) show ?thesis by (simp add: sorted_wrt_iff_nth_less)
    qed
    show ?thesis
    proof (cases "start (entries ! mid) < target")
      case lt: True
      have below: "\<forall>k<mid + 1. start (entries ! k) < target"
      proof (intro allI impI)
        fix k assume "k < mid + 1"
        then have "k \<le> mid" by simp
        from mono [OF this] m "1.prems"(2) have "start (entries ! k) \<le> start (entries ! mid)" by simp
        with lt show "start (entries ! k) < target" by simp
      qed
      from "1.IH"(1) [OF True mid_def at lt "1.prems"(1,2) _ below "1.prems"(5)] m
      obtain r where "getSegmentIndexLoop entries target (mid + 1) high = Inr r"
        "r \<le> length entries" "\<forall>k<r. start (entries ! k) < target"
        "\<forall>k. r \<le> k \<and> k < length entries \<longrightarrow> target \<le> start (entries ! k)" by auto
      with True at lt show ?thesis
        by (subst getSegmentIndexLoop.simps) (simp add: mid_def [symmetric])
    next
      case ge: False
      have above: "\<forall>k. mid \<le> k \<and> k < length entries \<longrightarrow> target \<le> start (entries ! k)"
      proof (intro allI impI)
        fix k assume "mid \<le> k \<and> k < length entries"
        then have "start (entries ! mid) \<le> start (entries ! k)" using mono by simp
        with ge show "target \<le> start (entries ! k)" by simp
      qed
      from m "1.prems"(2) have mh: "mid \<le> length entries" by simp
      from "1.IH"(2) [OF True mid_def at ge "1.prems"(1) mh m(1) "1.prems"(4) above]
      obtain r where "getSegmentIndexLoop entries target low mid = Inr r"
        "r \<le> length entries" "\<forall>k<r. start (entries ! k) < target"
        "\<forall>k. r \<le> k \<and> k < length entries \<longrightarrow> target \<le> start (entries ! k)" by auto
      with True at ge show ?thesis
        by (subst getSegmentIndexLoop.simps) (simp add: mid_def [symmetric])
    qed
  qed
qed

lemma getSegmentIndex_strictly_before:
  assumes "sorted_wrt (\<lambda>a b. start a \<le> start b) (timeline indexInfo)"
  shows "\<exists>i. getSegmentIndex indexInfo target = Inr i \<and>
             (0 < i \<longrightarrow> start (timeline indexInfo ! i) < target) \<and>
             (\<forall>k. i < k \<and> k < length (timeline indexInfo) \<longrightarrow>
                  target \<le> start (timeline indexInfo ! k))"
proof -
  from getSegmentIndexLoop_partition
    [OF assms, of "length (timeline indexInfo)" 0 target]
  obtain r where r: "getSegmentIndexLoop (timeline indexInfo) target 0 (length (timeline indexInfo)) = Inr r"
    "r \<le> length (timeline indexInfo)" "\<forall>k<r. start (timeline indexInfo ! k) < target"
    "\<forall>k. r \<le> k \<and> k < length (timeline indexInfo) \<longrightarrow> target \<le> start (timeline indexInfo ! k)"
    by auto
  show ?thesis
  proof (cases "r = 0")
    case True
    with r show ?thesis by (auto simp: getSegmentIndex_def)
  next
    case False
    with r show ?thesis by (auto simp: getSegmentIndex_def)
  qed
qed

text \<open>
  C7: the floor search is claimed to return the greatest index whose entry starts at or
  before the target. On the timeline of two entries starting at 0 and 10, searched for
  the target 10, the code returns \<open>0\<close>, although the entry of index 1 starts at 10.
\<close>

theorem C7_floor_search_at_entry_start:
  "getSegmentIndex
     (exampleIndex [\<lparr>start = 0, duration = 5, repeatCount = 0\<rparr>,
                    \<lparr>start = 10, duration = 5, repeatCount = 0\<rparr>] 1) 10 = Inr 0 \<and>
   start ([\<lparr>start = 0, duration = 5, repeatCount = 0\<rparr>,
           \<lparr>start = 10, duration = 5, repeatCount = 0\<rparr>] ! 1) \<le> 10"
  by (simp add: getSegmentIndex_def exampleIndex_def getSegmentIndexLoop.simps elemAt_def)

subsection \<open>Discontinuities\<close>

text \<open>
  C3, as the code has it: when the floor search, run on the scaled query time, lands on
  an entry that is not the last and has a concrete duration, \<^verbatim>\<open>checkDiscontinuity\<close>
  returns the next entry's start in seconds if and only if the scaled time is above
  zero and at or after the entry's start, the entry's end is before the next entry's
  start, and the end minus the scaled time is below the timescale; otherwise it returns
  \<open>-1\<close>. The scaled time need not be before the entry's end: a time inside the gap
  qualifies. The timeline is the one left by the eviction pass.
\<close>

theorem C3_checkDiscontinuity:
  assumes "entries = timeline (index (refreshTimeline this))"
    and "scaledTime = toIndexTime time (index (refreshTimeline this))"
    and "getSegmentIndex (index (refreshTimeline this)) scaledTime = Inr i"
    and "i + 1 < length entries"
    and "duration (entries ! i) \<noteq> - 1"
    and "0 < timescale (index this)"
    and "rangeTo = start (entries ! i) + duration (entries ! i) * (repeatCount (entries ! i) + 1)"
  shows "fst (checkDiscontinuity this time) =
           Inr (if 0 < scaledTime \<and>
                   rangeTo < start (entries ! (i + 1)) \<and>
                   start (entries ! i) \<le> scaledTime \<and>
                   rangeTo - scaledTime < timescale (index this)
                then fromIndexTime (start (entries ! (i + 1))) (index (refreshTimeline this))
                else - 1)"
proof -
  have guard: "\<not> (int i < 0 \<or> int i \<ge> int (length entries) - 1)"
    using assms(4) by simp
  have item: "elemAt entries i = Some (entries ! i)"
    using assms(4) by (simp add: elemAt_def)
  have nxt: "elemAt entries (i + 1) = Some (entries ! (i + 1))"
    using assms(4) by (simp add: elemAt_def)
  have rt: "getIndexSegmentEnd (entries ! i) (Some (entries ! (i + 1)))
              (scaledPeriodEnd (refreshTimeline this)) = Finite rangeTo"
    using assms(5,7) by (simp add: getIndexSegmentEnd_def)
  show ?thesis
    using guard item nxt rt assms(5)
    unfolding checkDiscontinuity_def Let_def assms(1) [symmetric] assms(2) [symmetric] assms(3)
    by (simp add: refreshTimeline_fields)
qed

theorem C3_checkDiscontinuity_witness:
  "fst (checkDiscontinuity
     (exampleFacade [\<lparr>start = 0, duration = 10, repeatCount = 0\<rparr>,
                     \<lparr>start = 20, duration = 10, repeatCount = 0\<rparr>] 1 None True None) 9.5)
     = Inr 20 \<and>
   fst (checkDiscontinuity
     (exampleFacade [\<lparr>start = 0, duration = 10, repeatCount = 0\<rparr>,
                     \<lparr>start = 20, duration = 10, repeatCount = 0\<rparr>] 1 None True None) 5)
     = Inr (- 1)"
  using C3_checkDiscontinuity
    [of "[\<lparr>start = 0, duration = 10, repeatCount = 0\<rparr>,
          \<lparr>start = 20, duration = 10, repeatCount = 0\<rparr>]"
        "exampleFacade [\<lparr>start = 0, duration = 10, repeatCount = 0\<rparr>,
                        \<lparr>start = 20, duration = 10, repeatCount = 0\<rparr>] 1 None True None"
        "9.5" "9.5" 0 10]
    C3_checkDiscontinuity
    [of "[\<lparr>start = 0, duration = 10, repeatCount = 0\<rparr>,
          \<lparr>start = 20, duration = 10, repeatCount = 0\<rparr>]"
        "exampleFacade [\<lparr>start = 0, duration = 10, repeatCount = 0\<rparr>,
                        \<lparr>start = 20, duration = 10, repeatCount = 0\<rparr>] 1 None True None"
        5 5 0 10]
  by (simp add: refreshTimeline_def exampleFacade_def exampleIndex_def getSegmentIndex_def
      getSegmentIndexLoop.simps elemAt_def toIndexTime_def fromIndexTime_def)

text \<open>
  With entries from 0 to 10 and from 20 to 30 at timescale 1, the query time 15 lands
  on the first entry and is not within its interval, yet the next start, 20, is
  returned.
\<close>

theorem C3_counterexample:
  "getSegmentIndex
     (index (exampleFacade [\<lparr>start = 0, duration = 10, repeatCount = 0\<rparr>,
                            \<lparr>start = 20, duration = 10, repeatCount = 0\<rparr>] 1 None True None))
     (toIndexTime 15
        (index (exampleFacade [\<lparr>start = 0, duration = 10, repeatCount = 0\<rparr>,
                               \<lparr>start = 20, duration = 10, repeatCount = 0\<rparr>] 1 None True None)))
     = Inr 0 \<and>
   \<not> toIndexTime 15
        (index (exampleFacade [\<lparr>start = 0, duration = 10, repeatCount = 0\<rparr>,
                               \<lparr>start = 20, duration = 10, repeatCount = 0\<rparr>] 1 None True None))
      < 0 + 10 * (0 + 1) \<and>
   fst (checkDiscontinuity
     (exampleFacade [\<lparr>start = 0, duration = 10, repeatCount = 0\<rparr>,
                     \<lparr>start = 20, duration = 10, repeatCount = 0\<rparr>] 1 None True None) 15)
     = Inr 20"
  by (simp add: checkDiscontinuity_def refreshTimeline_def exampleFacade_def exampleIndex_def
      getSegmentIndex_def getSegmentIndexLoop.simps elemAt_def getIndexSegmentEnd_def
      toIndexTime_def fromIndexTime_def)

subsection \<open>Refreshing\<close>

lemma getIndexSegmentEnd_concrete:
  "duration e \<noteq> - 1 \<Longrightarrow>
   getIndexSegmentEnd e nextSegment maximumTime = Finite (start e + duration e * (repeatCount e + 1))"
  by (simp add: getIndexSegmentEnd_def)

text \<open>
  C4, as the code has it: for a dynamic index whose timeline is the single entry
  starting at 0 with duration 4 and no repetition, at timescale 1 and 9 seconds after
  the last update, the theoretical last position is 12 (the end of the entry, 4, plus
  two extrapolated segments of duration 4), and \<^verbatim>\<open>shouldRefresh\<close> returns true both
  for 7 and for 9.
\<close>

theorem C4_extrapolation_scenario:
  assumes "isDynamic this"
    and "timeline (index this) = [\<lparr>start = 0, duration = 4, repeatCount = 0\<rparr>]"
    and "timescale (index this) = 1"
    and "now - lastUpdate this = 9000"
  shows "getTheoriticalLastPosition now this = Some (Finite 12) \<and>
         fst (shouldRefresh now this up 7) = True \<and>
         fst (shouldRefresh now this up 9) = True"
proof -
  have t: "getTheoriticalLastPosition now this = Some (Finite 12)"
    using assms by (simp add: getTheoriticalLastPosition_def getIndexSegmentEnd_def)
  have "timeline (index (refreshTimeline this)) = [] \<or> refreshTimeline this = this"
    using assms(2) by (simp add: refreshTimeline_def Let_def split: option.splits)
  then show ?thesis
  proof
    assume "timeline (index (refreshTimeline this)) = []"
    then show ?thesis
      using assms(1) t by (simp add: shouldRefresh_def Let_def refreshTimeline_fields)
  next
    assume "refreshTimeline this = this"
    then show ?thesis
      using assms t by (simp add: shouldRefresh_def getIndexSegmentEnd_def)
  qed
qed

theorem C4_extrapolation_scenario_witness:
  "getTheoriticalLastPosition 9000
     (exampleFacade [\<lparr>start = 0, duration = 4, repeatCount = 0\<rparr>] 1 None True None)
     = Some (Finite 12) \<and>
   fst (shouldRefresh 9000
     (exampleFacade [\<lparr>start = 0, duration = 4, repeatCount = 0\<rparr>] 1 None True None) 0 7) \<and>
   fst (shouldRefresh 9000
     (exampleFacade [\<lparr>start = 0, duration = 4, repeatCount = 0\<rparr>] 1 None True None) 0 9)"
  using C4_extrapolation_scenario
    [of "exampleFacade [\<lparr>start = 0, duration = 4, repeatCount = 0\<rparr>] 1 None True None" 9000 0]
  by (simp add: exampleFacade_def exampleIndex_def)

text \<open>
  The scenario as claimed (position 8, false for 7, true for 9) does not hold of the
  code.
\<close>

theorem C4_counterexample:
  "\<not> (getTheoriticalLastPosition 9000
         (exampleFacade [\<lparr>start = 0, duration = 4, repeatCount = 0\<rparr>] 1 None True None)
         = Some (Finite 8) \<and>
       fst (shouldRefresh 9000
         (exampleFacade [\<lparr>start = 0, duration = 4, repeatCount = 0\<rparr>] 1 None True None) 0 7)
         = False \<and>
       fst (shouldRefresh 9000
         (exampleFacade [\<lparr>start = 0, duration = 4, repeatCount = 0\<rparr>] 1 None True None) 0 9)
         = True)"
  by (simp add: getTheoriticalLastPosition_def exampleFacade_def exampleIndex_def
      getIndexSegmentEnd_def)

text \<open>
  C5, as the code has it: for a dynamic index whose timeline is not empty after the
  eviction pass, \<^verbatim>\<open>shouldRefresh\<close> returns false whenever \<^verbatim>\<open>to\<close>, converted to index
  time, is strictly before the end of the last entry: start + duration *
  (repeatCount + 1) for a concrete duration, and what \<^verbatim>\<open>getIndexSegmentEnd\<close> gives in
  general. Line 329 scales \<^verbatim>\<open>to\<close> by the timescale and leaves the index time offset
  out; the statement is proved where this cannot turn the answer, for an offset that is
  not negative.
\<close>

theorem C5_shouldRefresh_before_last_end:
  assumes "isDynamic this"
    and "timeline (index (refreshTimeline this)) \<noteq> []"
    and "lastElt = last (timeline (index (refreshTimeline this)))"
    and "0 \<le> indexTimeOffset (index this)"
  shows "(duration lastElt \<noteq> - 1 \<and>
          toIndexTime to (index this) <
            start lastElt + duration lastElt * (repeatCount lastElt + 1)
          \<longrightarrow> fst (shouldRefresh now this up to) = False) \<and>
         (lessPos (Finite (toIndexTime to (index this)))
            (getIndexSegmentEnd lastElt None (scaledPeriodEnd this))
          \<longrightarrow> fst (shouldRefresh now this up to) = False)"
proof -
  have scaled: "to * timescale (index this) \<le> toIndexTime to (index this)"
    using assms(4) by (simp add: toIndexTime_def)
  have less: "lessPos (Finite (to * timescale (index this))) p"
    if "lessPos (Finite (toIndexTime to (index this))) p" for p
    using that scaled by (cases p) simp_all
  have general: "fst (shouldRefresh now this up to) = False"
    if "lessPos (Finite (toIndexTime to (index this)))
          (getIndexSegmentEnd lastElt None (scaledPeriodEnd this))"
    using less [OF that] assms(1,2,3)
    by (simp add: shouldRefresh_def Let_def refreshTimeline_fields)
  show ?thesis
  proof (intro conjI impI)
    assume "duration lastElt \<noteq> - 1 \<and>
            toIndexTime to (index this) <
              start lastElt + duration lastElt * (repeatCount lastElt + 1)"
    then show "fst (shouldRefresh now this up to) = False"
      by (intro general) (simp add: getIndexSegmentEnd_concrete)
  next
    assume "lessPos (Finite (toIndexTime to (index this)))
              (getIndexSegmentEnd lastElt None (scaledPeriodEnd this))"
    then show "fst (shouldRefresh now this up to) = False" by (rule general)
  qed
qed

theorem C5_shouldRefresh_before_last_end_witness:
  "fst (shouldRefresh 9000
     (exampleFacade [\<lparr>start = 0, duration = 4, repeatCount = 0\<rparr>] 1 None True None) 0 3) = False \<and>
   toIndexTime 3
     (index (exampleFacade [\<lparr>start = 0, duration = 4, repeatCount = 0\<rparr>] 1 None True None))
     < 0 + 4 * (0 + 1)"
  using C5_shouldRefresh_before_last_end
    [of "exampleFacade [\<lparr>start = 0, duration = 4, repeatCount = 0\<rparr>] 1 None True None"
        "\<lparr>start = 0, duration = 4, repeatCount = 0\<rparr>" 3 9000 0]
  by (simp add: exampleFacade_def exampleIndex_def refreshTimeline_def getIndexSegmentEnd_def
      toIndexTime_def)

text \<open>
  At the end of the last entry itself the answer can be true: with the entry from 0 to
  4, 9 seconds after the last update, \<^verbatim>\<open>shouldRefresh\<close> of 4 is true.
\<close>

theorem C5_counterexample:
  "isDynamic (exampleFacade [\<lparr>start = 0, duration = 4, repeatCount = 0\<rparr>] 1 None True None) \<and>
   timeline (index (exampleFacade [\<lparr>start = 0, duration = 4, repeatCount = 0\<rparr>] 1 None True None))
     = [\<lparr>start = 0, duration = 4, repeatCount = 0\<rparr>] \<and>
   toIndexTime 4 (index (exampleFacade [\<lparr>start = 0, duration = 4, repeatCount = 0\<rparr>] 1 None True None))
     \<le> 0 + 4 * (0 + 1) \<and>
   fst (shouldRefresh 9000
     (exampleFacade [\<lparr>start = 0, duration = 4, repeatCount = 0\<rparr>] 1 None True None) 0 4) = True"
  by (simp add: shouldRefresh_def refreshTimeline_def getTheoriticalLastPosition_def
      exampleFacade_def exampleIndex_def getIndexSegmentEnd_def toIndexTime_def)

subsection \<open>Which methods run the eviction pass\<close>

text \<open>
  C6, as the code has it: \<^verbatim>\<open>getSegments\<close>, \<^verbatim>\<open>shouldRefresh\<close>, \<^verbatim>\<open>getFirstPosition\<close>,
  \<^verbatim>\<open>getLastPosition\<close>, \<^verbatim>\<open>checkDiscontinuity\<close> and, for a media segment,
  \<^verbatim>\<open>isSegmentStillAvailable\<close> first run the eviction pass: they leave the evicted facade
  and return what they return on it. \<^verbatim>\<open>getInitSegment\<close>, \<^verbatim>\<open>isFinished\<close>,
  \<^verbatim>\<open>canBeOutOfSyncError\<close> and, for an initialization segment,
  \<^verbatim>\<open>isSegmentStillAvailable\<close> run no eviction pass and leave the facade as it was.
\<close>

theorem C6_which_methods_evict:
  assumes "\<not> isInit mediaSegment" and "isInit initSegment"
  shows "getSegments getSegmentsFromTimeline this from durationWanted =
           (fst (getSegments getSegmentsFromTimeline (refreshTimeline this) from durationWanted),
            refreshTimeline this) \<and>
         shouldRefresh now this up to =
           (fst (shouldRefresh now (refreshTimeline this) up to), refreshTimeline this) \<and>
         getFirstPosition this =
           (fst (getFirstPosition (refreshTimeline this)), refreshTimeline this) \<and>
         getLastPosition this =
           (fst (getLastPosition (refreshTimeline this)), refreshTimeline this) \<and>
         checkDiscontinuity this time =
           (fst (checkDiscontinuity (refreshTimeline this) time), refreshTimeline this) \<and>
         isSegmentStillAvailable helper this mediaSegment =
           (fst (isSegmentStillAvailable helper (refreshTimeline this) mediaSegment),
            refreshTimeline this) \<and>
         snd (isSegmentStillAvailable helper this initSegment) = this \<and>
         snd (getInitSegment getInitSegmentHelper this) = this \<and>
         snd (isFinished this) = this \<and>
         snd (canBeOutOfSyncError this err) = this"
proof -
  note idem = refreshTimeline_idem [of this]
  have 1: "getSegments getSegmentsFromTimeline this from durationWanted =
           (fst (getSegments getSegmentsFromTimeline (refreshTimeline this) from durationWanted),
            refreshTimeline this)"
    by (simp add: getSegments_def Let_def idem)
  have 2: "shouldRefresh now this up to =
           (fst (shouldRefresh now (refreshTimeline this) up to), refreshTimeline this)"
    by (simp add: shouldRefresh_def Let_def idem)
  have 3: "getFirstPosition this =
           (fst (getFirstPosition (refreshTimeline this)), refreshTimeline this)"
    by (simp add: getFirstPosition_def Let_def idem)
  have 4: "getLastPosition this =
           (fst (getLastPosition (refreshTimeline this)), refreshTimeline this)"
    by (simp add: getLastPosition_def Let_def idem)
  have 5: "checkDiscontinuity this time =
           (fst (checkDiscontinuity (refreshTimeline this) time), refreshTimeline this)"
    by (simp add: checkDiscontinuity_def Let_def idem)
  have 6: "isSegmentStillAvailable helper this mediaSegment =
           (fst (isSegmentStillAvailable helper (refreshTimeline this) mediaSegment),
            refreshTimeline this)"
    using assms(1) by (simp add: isSegmentStillAvailable_def Let_def idem)
  have 7: "snd (isSegmentStillAvailable helper this initSegment) = this"
    using assms(2) by (simp add: isSegmentStillAvailable_def)
  have 8: "snd (getInitSegment getInitSegmentHelper this) = this"
    by (simp add: getInitSegment_def)
  have 9: "snd (isFinished this) = this"
    by (simp add: isFinished_def)
  have 10: "snd (canBeOutOfSyncError this err) = this"
    by (simp add: canBeOutOfSyncError_def)
  from 1 2 3 4 5 6 7 8 9 10 show ?thesis by blast
qed

theorem C6_which_methods_evict_witness:
  "\<not> isInit exampleMediaSegment \<and> isInit (exampleInitSegment (exampleIndex [] 1)) \<and>
   timeline (index (snd (getFirstPosition
     (exampleFacade [\<lparr>start = 0, duration = 10, repeatCount = 0\<rparr>] 1 (Some 10) True (Some 20)))))
     = [] \<and>
   timeline (index (snd (isFinished
     (exampleFacade [\<lparr>start = 0, duration = 10, repeatCount = 0\<rparr>] 1 (Some 10) True (Some 20)))))
     = [\<lparr>start = 0, duration = 10, repeatCount = 0\<rparr>]"
  using C6_which_methods_evict
    [of exampleMediaSegment "exampleInitSegment (exampleIndex [] 1)" undefined
        "exampleFacade [\<lparr>start = 0, duration = 10, repeatCount = 0\<rparr>] 1 (Some 10) True (Some 20)"]
  by (simp add: exampleMediaSegment_def exampleInitSegment_def refreshTimeline_def
      exampleFacade_def exampleIndex_def getIndexSegmentEnd_def toIndexTime_def elemAt_def)

text \<open>
  On a dynamic facade with the single entry from 0 to 10, a period end of 10 and a
  minimum bound of 20 seconds, the eviction pass empties the timeline. \<^verbatim>\<open>isFinished\<close>
  and \<^verbatim>\<open>getInitSegment\<close> leave the entry in place, and \<^verbatim>\<open>isFinished\<close> answers true
  from it, where it answers false on the evicted facade.
\<close>

theorem C6_counterexample:
  "timeline (index (snd (isFinished
      (exampleFacade [\<lparr>start = 0, duration = 10, repeatCount = 0\<rparr>] 1 (Some 10) True (Some 20)))))
     \<noteq> timeline (index (refreshTimeline
      (exampleFacade [\<lparr>start = 0, duration = 10, repeatCount = 0\<rparr>] 1 (Some 10) True (Some 20)))) \<and>
   fst (isFinished
      (exampleFacade [\<lparr>start = 0, duration = 10, repeatCount = 0\<rparr>] 1 (Some 10) True (Some 20)))
     = True \<and>
   fst (isFinished (refreshTimeline
      (exampleFacade [\<lparr>start = 0, duration = 10, repeatCount = 0\<rparr>] 1 (Some 10) True (Some 20))))
     = False \<and>
   timeline (index (snd (getInitSegment exampleInitSegment
      (exampleFacade [\<lparr>start = 0, duration = 10, repeatCount = 0\<rparr>] 1 (Some 10) True (Some 20)))))
     \<noteq> timeline (index (refreshTimeline
      (exampleFacade [\<lparr>start = 0, duration = 10, repeatCount = 0\<rparr>] 1 (Some 10) True (Some 20))))"
  by (simp add: isFinished_def getInitSegment_def refreshTimeline_def exampleFacade_def
      exampleIndex_def getIndexSegmentEnd_def toIndexTime_def elemAt_def)

subsection \<open>Finished indexes\<close>



end
